theory Spec2Isabelle
  imports Complex_Main
begin

section \<open>Constants and types (src/utils/constants.ts)\<close>

text \<open>
  The string-valued enumerations \<open>SESSION_TYPES\<close> and \<open>TIMER_STATES\<close> become datatypes and
  the object type \<open>Settings\<close> becomes a record. The TypeScript type \<open>number\<close> is modelled by
  \<open>int\<close> for the minute and second counters (the application only ever supplies the results
  of \<open>parseInt\<close> and adds or subtracts one), and by \<open>rat\<close> for the quotient computed for
  the progress percentage.
\<close>

datatype session_type = WORK | SHORT_BREAK | LONG_BREAK

datatype timer_state = IDLE | RUNNING | PAUSED | COMPLETED

record settings =
  workDuration :: int
  shortBreak :: int
  longBreak :: int
  sessionsUntilLongBreak :: int
  autoStartBreaks :: bool
  soundEnabled :: bool

definition DEFAULT_SETTINGS :: settings where
  "DEFAULT_SETTINGS =
     \<lparr>workDuration = 25, shortBreak = 5, longBreak = 15,
      sessionsUntilLongBreak = 4, autoStartBreaks = False, soundEnabled = True\<rparr>"

text \<open>\<open>Partial<Settings>\<close>: every field may be absent.\<close>

record partial_settings =
  workDuration_opt :: "int option"
  shortBreak_opt :: "int option"
  longBreak_opt :: "int option"
  sessionsUntilLongBreak_opt :: "int option"
  autoStartBreaks_opt :: "bool option"
  soundEnabled_opt :: "bool option"

text \<open>The object spread \<open>{ ...s, ...p }\<close>: a field present in \<open>p\<close> wins.\<close>

definition spread_settings :: "settings \<Rightarrow> partial_settings \<Rightarrow> settings" where
  "spread_settings s p =
     \<lparr>workDuration = (case workDuration_opt p of None \<Rightarrow> workDuration s | Some v \<Rightarrow> v),
      shortBreak = (case shortBreak_opt p of None \<Rightarrow> shortBreak s | Some v \<Rightarrow> v),
      longBreak = (case longBreak_opt p of None \<Rightarrow> longBreak s | Some v \<Rightarrow> v),
      sessionsUntilLongBreak =
        (case sessionsUntilLongBreak_opt p of None \<Rightarrow> sessionsUntilLongBreak s | Some v \<Rightarrow> v),
      autoStartBreaks = (case autoStartBreaks_opt p of None \<Rightarrow> autoStartBreaks s | Some v \<Rightarrow> v),
      soundEnabled = (case soundEnabled_opt p of None \<Rightarrow> soundEnabled s | Some v \<Rightarrow> v)\<rparr>"

text \<open>
  The remainder operator \<open>%\<close> of JavaScript on integral numbers: the result has the sign of
  the dividend, and a zero divisor gives \<open>NaN\<close>, here \<open>None\<close>.
\<close>

definition js_rem :: "int \<Rightarrow> int \<Rightarrow> int option" where
  "js_rem a b = (if b = 0 then None else Some (sgn a * (\<bar>a\<bar> mod \<bar>b\<bar>)))"

section \<open>The timer (src/components/Timer.ts)\<close>

text \<open>The payload of a \<open>timerUpdate\<close> event, interface \<open>TimerEventData\<close>.\<close>

record timer_event_data =
  ev_timeRemaining :: int
  ev_sessionType :: session_type
  ev_state :: timer_state
  ev_sessionsCompleted :: int
  ev_progress :: rat

text \<open>
  What a handle of the host window stands for: every \<open>setInterval\<close> of the class runs
  \<open>this.tick()\<close>, every \<open>setTimeout\<close> runs \<open>this.advanceToNextSession()\<close>.
\<close>

datatype callback = Interval_tick | Timeout_advance

text \<open>
  The state: the six private fields of class \<open>PomodoroTimer\<close>, followed by the part of the
  host the class acts on: the callbacks the window holds armed, each under its handle, in
  the order in which they come due; the next handle the window gives out; and the events
  dispatched so far, oldest first.
\<close>

record pomodoro_timer =
  timeRemaining :: int
  sessionType :: session_type
  state :: timer_state
  sessionsCompleted :: int
  intervalId :: "nat option"
  settings :: settings
  scheduled :: "(nat \<times> callback) list"
  next_handle :: nat
  emitted :: "timer_event_data list"

subsection \<open>The host window\<close>

definition window_setInterval :: "pomodoro_timer \<Rightarrow> nat \<times> pomodoro_timer" where
  "window_setInterval w =
     (next_handle w,
      w\<lparr>scheduled := scheduled w @ [(next_handle w, Interval_tick)],
        next_handle := Suc (next_handle w)\<rparr>)"

definition window_setTimeout :: "pomodoro_timer \<Rightarrow> nat \<times> pomodoro_timer" where
  "window_setTimeout w =
     (next_handle w,
      w\<lparr>scheduled := scheduled w @ [(next_handle w, Timeout_advance)],
        next_handle := Suc (next_handle w)\<rparr>)"

definition window_clearInterval :: "nat \<Rightarrow> pomodoro_timer \<Rightarrow> pomodoro_timer" where
  "window_clearInterval h w = w\<lparr>scheduled := filter (\<lambda>e. fst e \<noteq> h) (scheduled w)\<rparr>"

subsection \<open>Private helpers\<close>

definition getCurrentSessionDuration :: "pomodoro_timer \<Rightarrow> int" where
  "getCurrentSessionDuration w =
     (case sessionType w of
        WORK \<Rightarrow> workDuration (settings w)
      | SHORT_BREAK \<Rightarrow> shortBreak (settings w)
      | LONG_BREAK \<Rightarrow> longBreak (settings w))"

definition getNextSessionType :: "pomodoro_timer \<Rightarrow> session_type" where
  "getNextSessionType w =
     (if sessionType w = WORK
      then (if js_rem (sessionsCompleted w) (sessionsUntilLongBreak (settings w)) = Some 0
            then LONG_BREAK else SHORT_BREAK)
      else WORK)"

definition clearInterval :: "pomodoro_timer \<Rightarrow> pomodoro_timer" where
  "clearInterval w =
     (case intervalId w of
        None \<Rightarrow> w
      | Some h \<Rightarrow> (window_clearInterval h w)\<lparr>intervalId := None\<rparr>)"

text \<open>The object \<open>eventData\<close> that \<open>dispatchTimerEvent\<close> builds.\<close>

definition eventData :: "pomodoro_timer \<Rightarrow> timer_event_data" where
  "eventData w =
     (let totalDuration = getCurrentSessionDuration w * 60;
          progress = (if totalDuration > 0
                      then (of_int (totalDuration - timeRemaining w) / of_int totalDuration) * 100
                      else 0)
      in \<lparr>ev_timeRemaining = timeRemaining w, ev_sessionType = sessionType w,
          ev_state = state w, ev_sessionsCompleted = sessionsCompleted w,
          ev_progress = progress\<rparr>)"

definition dispatchTimerEvent :: "pomodoro_timer \<Rightarrow> pomodoro_timer" where
  "dispatchTimerEvent w = w\<lparr>emitted := emitted w @ [eventData w]\<rparr>"

subsection \<open>Operations\<close>

definition start :: "pomodoro_timer \<Rightarrow> pomodoro_timer" where
  "start w =
     (let w1 = (if state w = IDLE
                then w\<lparr>timeRemaining := getCurrentSessionDuration w * 60\<rparr> else w);
          w2 = w1\<lparr>state := RUNNING\<rparr>;
          (h, w3) = window_setInterval w2;
          w4 = w3\<lparr>intervalId := Some h\<rparr>
      in dispatchTimerEvent w4)"

definition pause :: "pomodoro_timer \<Rightarrow> pomodoro_timer" where
  "pause w =
     (if state w = RUNNING
      then dispatchTimerEvent (clearInterval (w\<lparr>state := PAUSED\<rparr>))
      else w)"

definition resume :: "pomodoro_timer \<Rightarrow> pomodoro_timer" where
  "resume w = (if state w = PAUSED then start w else w)"

definition reset :: "pomodoro_timer \<Rightarrow> pomodoro_timer" where
  "reset w =
     (let w1 = clearInterval (w\<lparr>state := IDLE\<rparr>);
          w2 = w1\<lparr>timeRemaining := getCurrentSessionDuration w1 * 60\<rparr>
      in dispatchTimerEvent w2)"

definition completeSession :: "pomodoro_timer \<Rightarrow> pomodoro_timer" where
  "completeSession w =
     (let w1 = clearInterval (w\<lparr>state := COMPLETED\<rparr>);
          w2 = (if sessionType w1 = WORK
                then w1\<lparr>sessionsCompleted := sessionsCompleted w1 + 1\<rparr> else w1);
          w3 = dispatchTimerEvent w2
      in snd (window_setTimeout w3))"

definition skip :: "pomodoro_timer \<Rightarrow> pomodoro_timer" where
  "skip w = completeSession w"

definition updateSettings :: "partial_settings \<Rightarrow> pomodoro_timer \<Rightarrow> pomodoro_timer" where
  "updateSettings newSettings w =
     (let w1 = w\<lparr>settings := spread_settings (settings w) newSettings\<rparr>
      in if state w1 = IDLE
         then dispatchTimerEvent (w1\<lparr>timeRemaining := getCurrentSessionDuration w1 * 60\<rparr>)
         else w1)"

definition tick :: "pomodoro_timer \<Rightarrow> pomodoro_timer" where
  "tick w =
     (let w1 = w\<lparr>timeRemaining := timeRemaining w - 1\<rparr>
      in if timeRemaining w1 \<le> 0 then completeSession w1 else dispatchTimerEvent w1)"

definition advanceToNextSession :: "pomodoro_timer \<Rightarrow> pomodoro_timer" where
  "advanceToNextSession w =
     (let w1 = w\<lparr>sessionType := getNextSessionType w\<rparr>;
          w2 = w1\<lparr>timeRemaining := getCurrentSessionDuration w1 * 60\<rparr>;
          w3 = w2\<lparr>state := IDLE\<rparr>
      in if autoStartBreaks (settings w3) \<and> sessionType w3 \<noteq> WORK
         then start w3 else dispatchTimerEvent w3)"

text \<open>
  The constructor, on a window that holds nothing yet: the field initialisers, then
  \<open>updateSettings\<close> when an argument is given, then \<open>reset\<close>.
\<close>

definition PomodoroTimer :: "partial_settings option \<Rightarrow> pomodoro_timer" where
  "PomodoroTimer arg =
     (let w0 = \<lparr>timeRemaining = 0, sessionType = WORK, state = IDLE, sessionsCompleted = 0,
                intervalId = None, settings = DEFAULT_SETTINGS,
                scheduled = [], next_handle = 1, emitted = []\<rparr>;
          w1 = (case arg of None \<Rightarrow> w0 | Some p \<Rightarrow> updateSettings p w0)
      in reset w1)"

subsection \<open>The clock of the host\<close>

text \<open>
  The window delivers the callback of a handle only while the handle is armed. A timeout
  is dropped before its callback runs. An interval is armed again for its next repetition
  after its callback ran, unless the callback cleared it: its next repetition comes due
  after everything that the callback armed with the same delay, so the handle moves
  behind those entries.
\<close>

definition rearm :: "nat \<Rightarrow> pomodoro_timer \<Rightarrow> pomodoro_timer" where
  "rearm h w =
     (if h \<in> set (map fst (scheduled w))
      then w\<lparr>scheduled := filter (\<lambda>e. fst e \<noteq> h) (scheduled w) @ [(h, Interval_tick)]\<rparr>
      else w)"

definition fire :: "nat \<Rightarrow> pomodoro_timer \<Rightarrow> pomodoro_timer" where
  "fire h w =
     (case map_of (scheduled w) h of
        None \<Rightarrow> w
      | Some Interval_tick \<Rightarrow> rearm h (tick w)
      | Some Timeout_advance \<Rightarrow>
          advanceToNextSession (w\<lparr>scheduled := filter (\<lambda>e. fst e \<noteq> h) (scheduled w)\<rparr>))"

text \<open>
  One second passes: every callback armed when the second began (all of them have the
  period or delay 1000 ms) comes due once, in the order in which they come due, which is
  the order of the list. A callback armed while the second passes comes due in the next
  one.
\<close>

definition advance_second :: "pomodoro_timer \<Rightarrow> pomodoro_timer" where
  "advance_second w = fold fire (map fst (scheduled w)) w"

text \<open>The handles of the armed 1 Hz tick sources.\<close>

definition tick_sources :: "pomodoro_timer \<Rightarrow> nat list" where
  "tick_sources w = map fst (filter (\<lambda>e. snd e = Interval_tick) (scheduled w))"

subsection \<open>Inputs and the settings invariant\<close>

text \<open>
  The empty object \<open>{}\<close> as a partial settings value, the invariant the specification
  states for settings, and the same condition on the fields a partial value supplies.
\<close>

definition no_settings :: partial_settings where
  "no_settings =
     \<lparr>workDuration_opt = None, shortBreak_opt = None, longBreak_opt = None,
      sessionsUntilLongBreak_opt = None, autoStartBreaks_opt = None, soundEnabled_opt = None\<rparr>"

definition settings_invariant :: "settings \<Rightarrow> bool" where
  "settings_invariant s \<longleftrightarrow>
     0 < workDuration s \<and> 0 < shortBreak s \<and> 0 < longBreak s \<and> 1 \<le> sessionsUntilLongBreak s"

definition supplied_values_valid :: "partial_settings \<Rightarrow> bool" where
  "supplied_values_valid p \<longleftrightarrow>
     (case workDuration_opt p of None \<Rightarrow> True | Some v \<Rightarrow> 0 < v) \<and>
     (case shortBreak_opt p of None \<Rightarrow> True | Some v \<Rightarrow> 0 < v) \<and>
     (case longBreak_opt p of None \<Rightarrow> True | Some v \<Rightarrow> 0 < v) \<and>
     (case sessionsUntilLongBreak_opt p of None \<Rightarrow> True | Some v \<Rightarrow> 1 \<le> v)"

section \<open>Basic facts\<close>

lemma getCurrentSessionDuration_frame [simp]:
  "getCurrentSessionDuration (w\<lparr>state := a\<rparr>) = getCurrentSessionDuration w"
  "getCurrentSessionDuration (w\<lparr>timeRemaining := b\<rparr>) = getCurrentSessionDuration w"
  "getCurrentSessionDuration (w\<lparr>sessionsCompleted := c\<rparr>) = getCurrentSessionDuration w"
  "getCurrentSessionDuration (w\<lparr>intervalId := d\<rparr>) = getCurrentSessionDuration w"
  "getCurrentSessionDuration (w\<lparr>scheduled := e\<rparr>) = getCurrentSessionDuration w"
  "getCurrentSessionDuration (w\<lparr>next_handle := f\<rparr>) = getCurrentSessionDuration w"
  "getCurrentSessionDuration (w\<lparr>emitted := g\<rparr>) = getCurrentSessionDuration w"
  by (simp_all add: getCurrentSessionDuration_def split: session_type.split)

lemma clearInterval_fields [simp]:
  "timeRemaining (clearInterval w) = timeRemaining w"
  "sessionType (clearInterval w) = sessionType w"
  "state (clearInterval w) = state w"
  "sessionsCompleted (clearInterval w) = sessionsCompleted w"
  "settings (clearInterval w) = settings w"
  "emitted (clearInterval w) = emitted w"
  "intervalId (clearInterval w) = None"
  "next_handle (clearInterval w) = next_handle w"
  by (simp_all add: clearInterval_def window_clearInterval_def split: option.splits)

lemma getCurrentSessionDuration_clearInterval [simp]:
  "getCurrentSessionDuration (clearInterval w) = getCurrentSessionDuration w"
  by (simp add: getCurrentSessionDuration_def split: session_type.split)

lemma clearInterval_commute [simp]:
  "clearInterval (w\<lparr>state := a\<rparr>) = (clearInterval w)\<lparr>state := a\<rparr>"
  "clearInterval (w\<lparr>timeRemaining := b\<rparr>) = (clearInterval w)\<lparr>timeRemaining := b\<rparr>"
  "clearInterval (w\<lparr>sessionsCompleted := c\<rparr>) = (clearInterval w)\<lparr>sessionsCompleted := c\<rparr>"
  "clearInterval (w\<lparr>sessionType := d\<rparr>) = (clearInterval w)\<lparr>sessionType := d\<rparr>"
  "clearInterval (w\<lparr>settings := e\<rparr>) = (clearInterval w)\<lparr>settings := e\<rparr>"
  "clearInterval (w\<lparr>emitted := g\<rparr>) = (clearInterval w)\<lparr>emitted := g\<rparr>"
  by (simp_all add: clearInterval_def window_clearInterval_def split: option.splits)

lemma clearInterval_idem [simp]: "clearInterval (clearInterval w) = clearInterval w"
  by (simp add: clearInterval_def split: option.splits)

lemma eventData_frame [simp]:
  "eventData (w\<lparr>intervalId := d\<rparr>) = eventData w"
  "eventData (w\<lparr>scheduled := e\<rparr>) = eventData w"
  "eventData (w\<lparr>next_handle := f\<rparr>) = eventData w"
  "eventData (w\<lparr>emitted := g\<rparr>) = eventData w"
  by (simp_all add: eventData_def Let_def)

lemma eventData_clearInterval [simp]: "eventData (clearInterval w) = eventData w"
  by (simp add: eventData_def Let_def)

lemma getCurrentSessionDuration_eqI:
  "sessionType a = sessionType b \<Longrightarrow> settings a = settings b \<Longrightarrow>
   getCurrentSessionDuration a = getCurrentSessionDuration b"
  by (simp add: getCurrentSessionDuration_def split: session_type.split)

lemma eventData_eqI:
  "timeRemaining a = timeRemaining b \<Longrightarrow> sessionType a = sessionType b \<Longrightarrow>
   state a = state b \<Longrightarrow> sessionsCompleted a = sessionsCompleted b \<Longrightarrow>
   settings a = settings b \<Longrightarrow> eventData a = eventData b"
  using getCurrentSessionDuration_eqI [of a b] by (simp add: eventData_def Let_def)

lemma dispatchTimerEvent_fields [simp]:
  "timeRemaining (dispatchTimerEvent w) = timeRemaining w"
  "sessionType (dispatchTimerEvent w) = sessionType w"
  "state (dispatchTimerEvent w) = state w"
  "sessionsCompleted (dispatchTimerEvent w) = sessionsCompleted w"
  "settings (dispatchTimerEvent w) = settings w"
  "intervalId (dispatchTimerEvent w) = intervalId w"
  "scheduled (dispatchTimerEvent w) = scheduled w"
  "next_handle (dispatchTimerEvent w) = next_handle w"
  "emitted (dispatchTimerEvent w) = emitted w @ [eventData w]"
  by (simp_all add: dispatchTimerEvent_def)

lemma eventData_dispatchTimerEvent [simp]: "eventData (dispatchTimerEvent w) = eventData w"
  by (rule eventData_eqI) simp_all

lemma reset_fields:
  "state (reset w) = IDLE"
  "timeRemaining (reset w) = getCurrentSessionDuration w * 60"
  "sessionType (reset w) = sessionType w"
  "sessionsCompleted (reset w) = sessionsCompleted w"
  "settings (reset w) = settings w"
  "intervalId (reset w) = None"
  "next_handle (reset w) = next_handle w"
  "scheduled (reset w) = scheduled (clearInterval w)"
  "emitted (reset w) = emitted w @ [eventData (reset w)]"
  by (simp_all add: reset_def Let_def)

lemma start_fields:
  "state (start w) = RUNNING"
  "timeRemaining (start w) =
     (if state w = IDLE then getCurrentSessionDuration w * 60 else timeRemaining w)"
  "sessionType (start w) = sessionType w"
  "sessionsCompleted (start w) = sessionsCompleted w"
  "settings (start w) = settings w"
  "intervalId (start w) = Some (next_handle w)"
  "next_handle (start w) = Suc (next_handle w)"
  "scheduled (start w) = scheduled w @ [(next_handle w, Interval_tick)]"
  "emitted (start w) = emitted w @ [eventData (start w)]"
  by (simp_all add: start_def Let_def window_setInterval_def)

lemma pause_fields:
  "state (pause w) = (if state w = RUNNING then PAUSED else state w)"
  "timeRemaining (pause w) = timeRemaining w"
  "sessionType (pause w) = sessionType w"
  "sessionsCompleted (pause w) = sessionsCompleted w"
  "settings (pause w) = settings w"
  "intervalId (pause w) = (if state w = RUNNING then None else intervalId w)"
  "next_handle (pause w) = next_handle w"
  "scheduled (pause w) = (if state w = RUNNING then scheduled (clearInterval w) else scheduled w)"
  "emitted (pause w) = (if state w = RUNNING then emitted w @ [eventData (pause w)] else emitted w)"
  by (simp_all add: pause_def)

lemma completeSession_fields:
  "state (completeSession w) = COMPLETED"
  "timeRemaining (completeSession w) = timeRemaining w"
  "sessionType (completeSession w) = sessionType w"
  "sessionsCompleted (completeSession w) =
     (if sessionType w = WORK then sessionsCompleted w + 1 else sessionsCompleted w)"
  "settings (completeSession w) = settings w"
  "intervalId (completeSession w) = None"
  "next_handle (completeSession w) = Suc (next_handle w)"
  "scheduled (completeSession w) = scheduled (clearInterval w) @ [(next_handle w, Timeout_advance)]"
  "emitted (completeSession w) = emitted w @ [eventData (completeSession w)]"
  by (simp_all add: completeSession_def Let_def window_setTimeout_def)

lemma tick_fields:
  "state (tick w) = (if timeRemaining w \<le> 1 then COMPLETED else state w)"
  "timeRemaining (tick w) = timeRemaining w - 1"
  "sessionType (tick w) = sessionType w"
  "sessionsCompleted (tick w) =
     (if timeRemaining w \<le> 1 \<and> sessionType w = WORK
      then sessionsCompleted w + 1 else sessionsCompleted w)"
  "settings (tick w) = settings w"
  "intervalId (tick w) = (if timeRemaining w \<le> 1 then None else intervalId w)"
  "next_handle (tick w) = (if timeRemaining w \<le> 1 then Suc (next_handle w) else next_handle w)"
  "scheduled (tick w) =
     (if timeRemaining w \<le> 1
      then scheduled (clearInterval w) @ [(next_handle w, Timeout_advance)] else scheduled w)"
  "emitted (tick w) = emitted w @ [eventData (tick w)]"
  by (simp_all add: tick_def Let_def completeSession_fields)

lemma updateSettings_fields:
  "state (updateSettings p w) = state w"
  "timeRemaining (updateSettings p w) =
     (if state w = IDLE
      then getCurrentSessionDuration (w\<lparr>settings := spread_settings (settings w) p\<rparr>) * 60
      else timeRemaining w)"
  "sessionType (updateSettings p w) = sessionType w"
  "sessionsCompleted (updateSettings p w) = sessionsCompleted w"
  "settings (updateSettings p w) = spread_settings (settings w) p"
  "intervalId (updateSettings p w) = intervalId w"
  "next_handle (updateSettings p w) = next_handle w"
  "scheduled (updateSettings p w) = scheduled w"
  "emitted (updateSettings p w) =
     (if state w = IDLE then emitted w @ [eventData (updateSettings p w)] else emitted w)"
  by (simp_all add: updateSettings_def Let_def)

lemma advanceToNextSession_fields:
  "state (advanceToNextSession w) =
     (if autoStartBreaks (settings w) \<and> getNextSessionType w \<noteq> WORK then RUNNING else IDLE)"
  "timeRemaining (advanceToNextSession w) =
     getCurrentSessionDuration (w\<lparr>sessionType := getNextSessionType w\<rparr>) * 60"
  "sessionType (advanceToNextSession w) = getNextSessionType w"
  "sessionsCompleted (advanceToNextSession w) = sessionsCompleted w"
  "settings (advanceToNextSession w) = settings w"
  "intervalId (advanceToNextSession w) =
     (if autoStartBreaks (settings w) \<and> getNextSessionType w \<noteq> WORK
      then Some (next_handle w) else intervalId w)"
  "next_handle (advanceToNextSession w) =
     (if autoStartBreaks (settings w) \<and> getNextSessionType w \<noteq> WORK
      then Suc (next_handle w) else next_handle w)"
  "scheduled (advanceToNextSession w) =
     (if autoStartBreaks (settings w) \<and> getNextSessionType w \<noteq> WORK
      then scheduled w @ [(next_handle w, Interval_tick)] else scheduled w)"
  "emitted (advanceToNextSession w) = emitted w @ [eventData (advanceToNextSession w)]"
  by (simp_all add: advanceToNextSession_def Let_def start_fields)

lemma js_rem_zero_iff: "js_rem a b = Some 0 \<longleftrightarrow> b \<noteq> 0 \<and> a mod b = 0"
  by (auto simp add: js_rem_def mod_eq_0_iff_dvd sgn_if)

lemma getCurrentSessionDuration_cases:
  "getCurrentSessionDuration w =
     (case sessionType w of
        WORK \<Rightarrow> workDuration (settings w)
      | SHORT_BREAK \<Rightarrow> shortBreak (settings w)
      | LONG_BREAK \<Rightarrow> longBreak (settings w))"
  by (simp add: getCurrentSessionDuration_def)

lemma spread_settings_fields:
  "workDuration (spread_settings s p) =
     (case workDuration_opt p of None \<Rightarrow> workDuration s | Some v \<Rightarrow> v)"
  "shortBreak (spread_settings s p) =
     (case shortBreak_opt p of None \<Rightarrow> shortBreak s | Some v \<Rightarrow> v)"
  "longBreak (spread_settings s p) =
     (case longBreak_opt p of None \<Rightarrow> longBreak s | Some v \<Rightarrow> v)"
  "sessionsUntilLongBreak (spread_settings s p) =
     (case sessionsUntilLongBreak_opt p of None \<Rightarrow> sessionsUntilLongBreak s | Some v \<Rightarrow> v)"
  "autoStartBreaks (spread_settings s p) =
     (case autoStartBreaks_opt p of None \<Rightarrow> autoStartBreaks s | Some v \<Rightarrow> v)"
  "soundEnabled (spread_settings s p) =
     (case soundEnabled_opt p of None \<Rightarrow> soundEnabled s | Some v \<Rightarrow> v)"
  by (simp_all add: spread_settings_def)

lemma sessionType_advanceToNextSession:
  "sessionType (advanceToNextSession w) =
     (if sessionType w = WORK
      then (if sessionsUntilLongBreak (settings w) \<noteq> 0
               \<and> sessionsCompleted w mod sessionsUntilLongBreak (settings w) = 0
            then LONG_BREAK else SHORT_BREAK)
      else WORK)"
  by (simp add: advanceToNextSession_fields getNextSessionType_def js_rem_zero_iff)

lemma timeRemaining_advanceToNextSession:
  "timeRemaining (advanceToNextSession w) =
     (case sessionType (advanceToNextSession w) of
        WORK \<Rightarrow> workDuration (settings w)
      | SHORT_BREAK \<Rightarrow> shortBreak (settings w)
      | LONG_BREAK \<Rightarrow> longBreak (settings w)) * 60"
  by (simp add: advanceToNextSession_fields getCurrentSessionDuration_def
      split: session_type.split)

section \<open>The claims\<close>

subsection \<open>Starting a running timer\<close>

text \<open>
  C1. The claim: \<open>start\<close> on a RUNNING timer must not arm a second tick source, so that one
  second later the remaining time has dropped by exactly one. The code arms a new interval
  without clearing the one recorded in \<open>intervalId\<close>. On a fresh timer, one \<open>start\<close>
  arms the handle 1 and a second takes 1500 to 1499; a second \<open>start\<close> leaves the
  handles 1 and 2 armed, and the same second takes 1500 to 1498.
\<close>

theorem start_while_running_arms_second_interval:
  "state (start (PomodoroTimer None)) = RUNNING
   \<and> tick_sources (start (PomodoroTimer None)) = [1]
   \<and> timeRemaining (advance_second (start (PomodoroTimer None))) = 1499
   \<and> timeRemaining (start (start (PomodoroTimer None))) = 1500
   \<and> tick_sources (start (start (PomodoroTimer None))) = [1, 2]
   \<and> timeRemaining (advance_second (start (start (PomodoroTimer None)))) = 1498"
  by code_simp

subsection \<open>Ticks outside RUNNING\<close>

text \<open>
  C2, as stated, fails: \<open>tick\<close> has no check of the state. On a PAUSED timer with 1500
  seconds left it leaves 1499. Such a tick is delivered in a run of the public operations:
  after \<open>start\<close>, \<open>start\<close>, \<open>pause\<close> the interval of the first \<open>start\<close> is still
  armed, and one second later the PAUSED timer has 1499 seconds left.
\<close>

theorem tick_while_paused_counterexample:
  "state (pause (start (PomodoroTimer None))) = PAUSED
   \<and> timeRemaining (pause (start (PomodoroTimer None))) = 1500
   \<and> timeRemaining (tick (pause (start (PomodoroTimer None)))) = 1499
   \<and> state (advance_second (pause (start (start (PomodoroTimer None))))) = PAUSED
   \<and> timeRemaining (pause (start (start (PomodoroTimer None)))) = 1500
   \<and> timeRemaining (advance_second (pause (start (start (PomodoroTimer None))))) = 1499"
  by code_simp

lemma scheduled_clearInterval_only:
  assumes "set (map fst (scheduled w)) \<subseteq> set_option (intervalId w)"
  shows "scheduled (clearInterval w) = []"
proof (cases "intervalId w")
  case None
  with assms show ?thesis by (simp add: clearInterval_def)
next
  case (Some h)
  with assms have "\<forall>e \<in> set (scheduled w). fst e = h" by auto
  then have "filter (\<lambda>e. fst e \<noteq> h) (scheduled w) = []"
    by (simp add: filter_empty_conv)
  with Some show ?thesis by (simp add: clearInterval_def window_clearInterval_def)
qed

lemma advance_second_nothing_armed: "scheduled w = [] \<Longrightarrow> advance_second w = w"
  by (simp add: advance_second_def)

text \<open>
  C2, amended. \<open>tick\<close> takes one second off the remaining time in every state. What
  keeps ticks away from a timer that is not RUNNING is the cancellation of the interval
  recorded in \<open>intervalId\<close>: when that interval is the only callback the window holds
  armed, nothing is armed after \<open>reset\<close> or after \<open>pause\<close> of a RUNNING timer, so a
  second that passes changes nothing at all, and after a completion no tick source is armed.
\<close>

theorem tick_unguarded_source_cancelled:
  "timeRemaining (tick w) = timeRemaining w - 1
   \<and> (set (map fst (scheduled w)) \<subseteq> set_option (intervalId w) \<longrightarrow>
        advance_second (reset w) = reset w
        \<and> (state w = RUNNING \<longrightarrow> state (pause w) = PAUSED \<and> advance_second (pause w) = pause w)
        \<and> tick_sources (completeSession w) = [])"
proof -
  have "advance_second (reset w) = reset w
        \<and> (state w = RUNNING \<longrightarrow> state (pause w) = PAUSED \<and> advance_second (pause w) = pause w)
        \<and> tick_sources (completeSession w) = []"
    if a: "set (map fst (scheduled w)) \<subseteq> set_option (intervalId w)"
  proof -
    have c: "scheduled (clearInterval w) = []"
      using a by (rule scheduled_clearInterval_only)
    have 1: "advance_second (reset w) = reset w"
      by (rule advance_second_nothing_armed) (simp add: reset_fields c)
    have 2: "advance_second (pause w) = pause w" if "state w = RUNNING"
      by (rule advance_second_nothing_armed) (simp add: pause_fields c that)
    have 3: "tick_sources (completeSession w) = []"
      by (simp add: tick_sources_def completeSession_fields c)
    show ?thesis using 1 2 3 by (simp add: pause_fields)
  qed
  then show ?thesis by (simp add: tick_fields)
qed

text \<open>The hypotheses are met, and the statement applies, at concrete timers.\<close>

theorem tick_unguarded_source_cancelled_witness:
  "set (map fst (scheduled (start (PomodoroTimer None))))
     \<subseteq> set_option (intervalId (start (PomodoroTimer None)))
   \<and> state (start (PomodoroTimer None)) = RUNNING
   \<and> state (pause (start (PomodoroTimer None))) = PAUSED
   \<and> advance_second (pause (start (PomodoroTimer None))) = pause (start (PomodoroTimer None))"
proof -
  have h1: "set (map fst (scheduled (start (PomodoroTimer None))))
     \<subseteq> set_option (intervalId (start (PomodoroTimer None)))"
    by code_simp
  have h2: "state (start (PomodoroTimer None)) = RUNNING"
    by code_simp
  show ?thesis
    using h1 h2 tick_unguarded_source_cancelled [of "start (PomodoroTimer None)"] by blast
qed

subsection \<open>Settings are stored as supplied\<close>

text \<open>
  C3, as stated, fails: nothing clamps. \<open>updateSettings\<close> with \<open>workDuration: 0\<close>
  stores 0, and the constructor with \<open>sessionsUntilLongBreak: -3\<close> stores -3.
\<close>

theorem settings_not_clamped_counterexample:
  "workDuration (settings (updateSettings (no_settings\<lparr>workDuration_opt := Some 0\<rparr>)
      (PomodoroTimer None))) = 0
   \<and> sessionsUntilLongBreak (settings (PomodoroTimer
        (Some (no_settings\<lparr>sessionsUntilLongBreak_opt := Some (- 3)\<rparr>)))) = - 3"
  by code_simp

lemma spread_settings_invariant:
  "settings_invariant s \<Longrightarrow> supplied_values_valid p \<Longrightarrow>
   settings_invariant (spread_settings s p)"
  by (simp add: settings_invariant_def supplied_values_valid_def spread_settings_def
      split: option.splits)

lemma settings_PomodoroTimer:
  "settings (PomodoroTimer arg) =
     (case arg of None \<Rightarrow> DEFAULT_SETTINGS | Some p \<Rightarrow> spread_settings DEFAULT_SETTINGS p)"
  by (cases arg) (simp_all add: PomodoroTimer_def Let_def reset_fields updateSettings_fields)

lemma settings_invariant_default: "settings_invariant DEFAULT_SETTINGS"
  by (simp add: settings_invariant_def DEFAULT_SETTINGS_def)

text \<open>
  C3, amended. \<open>updateSettings\<close> and the constructor store every supplied field exactly
  as it is given, and keep the previous value (for the constructor: the default 25, 5, 15,
  4, false, true) of a field that is not supplied; nothing is clamped and no error is
  raised (the operations are total). The default settings have all durations above 0 and
  \<open>sessionsUntilLongBreak\<close> at least 1, and the stored settings keep that property
  whenever every supplied value has it.
\<close>

theorem settings_stored_as_supplied:
  "workDuration (settings (updateSettings p w)) =
     (case workDuration_opt p of None \<Rightarrow> workDuration (settings w) | Some v \<Rightarrow> v)
   \<and> shortBreak (settings (updateSettings p w)) =
     (case shortBreak_opt p of None \<Rightarrow> shortBreak (settings w) | Some v \<Rightarrow> v)
   \<and> longBreak (settings (updateSettings p w)) =
     (case longBreak_opt p of None \<Rightarrow> longBreak (settings w) | Some v \<Rightarrow> v)
   \<and> sessionsUntilLongBreak (settings (updateSettings p w)) =
     (case sessionsUntilLongBreak_opt p of
        None \<Rightarrow> sessionsUntilLongBreak (settings w) | Some v \<Rightarrow> v)
   \<and> autoStartBreaks (settings (updateSettings p w)) =
     (case autoStartBreaks_opt p of None \<Rightarrow> autoStartBreaks (settings w) | Some v \<Rightarrow> v)
   \<and> soundEnabled (settings (updateSettings p w)) =
     (case soundEnabled_opt p of None \<Rightarrow> soundEnabled (settings w) | Some v \<Rightarrow> v)
   \<and> workDuration (settings (PomodoroTimer (Some p))) =
     (case workDuration_opt p of None \<Rightarrow> 25 | Some v \<Rightarrow> v)
   \<and> shortBreak (settings (PomodoroTimer (Some p))) =
     (case shortBreak_opt p of None \<Rightarrow> 5 | Some v \<Rightarrow> v)
   \<and> longBreak (settings (PomodoroTimer (Some p))) =
     (case longBreak_opt p of None \<Rightarrow> 15 | Some v \<Rightarrow> v)
   \<and> sessionsUntilLongBreak (settings (PomodoroTimer (Some p))) =
     (case sessionsUntilLongBreak_opt p of None \<Rightarrow> 4 | Some v \<Rightarrow> v)
   \<and> autoStartBreaks (settings (PomodoroTimer (Some p))) =
     (case autoStartBreaks_opt p of None \<Rightarrow> False | Some v \<Rightarrow> v)
   \<and> soundEnabled (settings (PomodoroTimer (Some p))) =
     (case soundEnabled_opt p of None \<Rightarrow> True | Some v \<Rightarrow> v)
   \<and> settings (PomodoroTimer None) =
       \<lparr>workDuration = 25, shortBreak = 5, longBreak = 15,
        sessionsUntilLongBreak = 4, autoStartBreaks = False, soundEnabled = True\<rparr>
   \<and> (supplied_values_valid p \<longrightarrow>
        settings_invariant (settings (PomodoroTimer (Some p)))
        \<and> (settings_invariant (settings w) \<longrightarrow> settings_invariant (settings (updateSettings p w))))"
proof -
  have u: "settings (updateSettings p w) = spread_settings (settings w) p"
    by (simp add: updateSettings_fields)
  have c: "settings (PomodoroTimer (Some p)) = spread_settings DEFAULT_SETTINGS p"
    by (simp add: settings_PomodoroTimer)
  have n: "settings (PomodoroTimer None) = DEFAULT_SETTINGS"
    by (simp add: settings_PomodoroTimer)
  have i: "supplied_values_valid p \<longrightarrow>
        settings_invariant (settings (PomodoroTimer (Some p)))
        \<and> (settings_invariant (settings w) \<longrightarrow> settings_invariant (settings (updateSettings p w)))"
    unfolding u c by (simp add: settings_invariant_default spread_settings_invariant)
  have f: "workDuration DEFAULT_SETTINGS = 25" "shortBreak DEFAULT_SETTINGS = 5"
    "longBreak DEFAULT_SETTINGS = 15" "sessionsUntilLongBreak DEFAULT_SETTINGS = 4"
    "autoStartBreaks DEFAULT_SETTINGS = False" "soundEnabled DEFAULT_SETTINGS = True"
    by (simp_all add: DEFAULT_SETTINGS_def)
  have d: "DEFAULT_SETTINGS =
       \<lparr>workDuration = 25, shortBreak = 5, longBreak = 15,
        sessionsUntilLongBreak = 4, autoStartBreaks = False, soundEnabled = True\<rparr>"
    by (simp add: DEFAULT_SETTINGS_def)
  show ?thesis
    using i unfolding u c n spread_settings_fields f
    by (simp add: d)
qed

text \<open>The hypotheses are met, and the statement applies, at concrete timers.\<close>

theorem settings_stored_as_supplied_witness:
  "supplied_values_valid
     (no_settings\<lparr>workDuration_opt := Some 10, shortBreak_opt := Some 7,
        longBreak_opt := Some 20, sessionsUntilLongBreak_opt := Some 3,
        autoStartBreaks_opt := Some True\<rparr>)
   \<and> settings_invariant (settings (PomodoroTimer None))
   \<and> settings (updateSettings
        (no_settings\<lparr>workDuration_opt := Some 10, shortBreak_opt := Some 7,
           longBreak_opt := Some 20, sessionsUntilLongBreak_opt := Some 3,
           autoStartBreaks_opt := Some True\<rparr>) (PomodoroTimer None)) =
       \<lparr>workDuration = 10, shortBreak = 7, longBreak = 20,
        sessionsUntilLongBreak = 3, autoStartBreaks = True, soundEnabled = True\<rparr>
   \<and> settings (PomodoroTimer (Some
        (no_settings\<lparr>workDuration_opt := Some 10, shortBreak_opt := Some 7,
           longBreak_opt := Some 20, sessionsUntilLongBreak_opt := Some 3,
           autoStartBreaks_opt := Some True\<rparr>))) =
       \<lparr>workDuration = 10, shortBreak = 7, longBreak = 20,
        sessionsUntilLongBreak = 3, autoStartBreaks = True, soundEnabled = True\<rparr>
   \<and> settings_invariant (settings (updateSettings
        (no_settings\<lparr>workDuration_opt := Some 10, shortBreak_opt := Some 7,
           longBreak_opt := Some 20, sessionsUntilLongBreak_opt := Some 3,
           autoStartBreaks_opt := Some True\<rparr>) (PomodoroTimer None)))
   \<and> settings_invariant (settings (PomodoroTimer (Some
        (no_settings\<lparr>workDuration_opt := Some 10, shortBreak_opt := Some 7,
           longBreak_opt := Some 20, sessionsUntilLongBreak_opt := Some 3,
           autoStartBreaks_opt := Some True\<rparr>))))"
proof -
  define p where "p = no_settings\<lparr>workDuration_opt := Some 10, shortBreak_opt := Some 7,
        longBreak_opt := Some 20, sessionsUntilLongBreak_opt := Some 3,
        autoStartBreaks_opt := Some True\<rparr>"
  have o: "workDuration_opt p = Some 10" "shortBreak_opt p = Some 7" "longBreak_opt p = Some 20"
    "sessionsUntilLongBreak_opt p = Some 3" "autoStartBreaks_opt p = Some True"
    "soundEnabled_opt p = None"
    by (simp_all add: p_def no_settings_def)
  have h1: "supplied_values_valid p"
    by (simp add: supplied_values_valid_def o)
  have t: "settings (PomodoroTimer None) =
       \<lparr>workDuration = 25, shortBreak = 5, longBreak = 15,
        sessionsUntilLongBreak = 4, autoStartBreaks = False, soundEnabled = True\<rparr>"
    using settings_stored_as_supplied [of p "PomodoroTimer None"] by blast
  have h2: "settings_invariant (settings (PomodoroTimer None))"
    unfolding t by (simp add: settings_invariant_def)
  have s: "soundEnabled (settings (PomodoroTimer None))"
    unfolding t by simp
  have u: "settings (updateSettings p (PomodoroTimer None)) =
       \<lparr>workDuration = 10, shortBreak = 7, longBreak = 20,
        sessionsUntilLongBreak = 3, autoStartBreaks = True, soundEnabled = True\<rparr>"
    using settings_stored_as_supplied [of p "PomodoroTimer None"] s
    by (simp add: o settings.equality)
  have c: "settings (PomodoroTimer (Some p)) =
       \<lparr>workDuration = 10, shortBreak = 7, longBreak = 20,
        sessionsUntilLongBreak = 3, autoStartBreaks = True, soundEnabled = True\<rparr>"
    using settings_stored_as_supplied [of p "PomodoroTimer None"]
    by (simp add: o settings.equality)
  have i: "settings_invariant (settings (updateSettings p (PomodoroTimer None)))
     \<and> settings_invariant (settings (PomodoroTimer (Some p)))"
    using h1 h2 settings_stored_as_supplied [of p "PomodoroTimer None"] by blast
  show ?thesis
    using h1 h2 u c i unfolding p_def by blast
qed

subsection \<open>Snapshot emission\<close>

text \<open>
  C4, as stated, fails: \<open>updateSettings\<close> on a RUNNING timer, and on a PAUSED one, emits
  no event at all.
\<close>

theorem updateSettings_running_no_snapshot_counterexample:
  "state (start (PomodoroTimer None)) = RUNNING
   \<and> emitted (updateSettings (no_settings\<lparr>workDuration_opt := Some 10\<rparr>)
        (start (PomodoroTimer None))) = emitted (start (PomodoroTimer None))
   \<and> state (pause (start (PomodoroTimer None))) = PAUSED
   \<and> emitted (updateSettings (no_settings\<lparr>workDuration_opt := Some 10\<rparr>)
        (pause (start (PomodoroTimer None)))) = emitted (pause (start (PomodoroTimer None)))"
  by code_simp

text \<open>
  C4, amended. \<open>start\<close>, \<open>reset\<close>, \<open>skip\<close>, \<open>tick\<close> and the automatic advance
  each emit exactly one event, within the operation, and it carries the fields the timer
  has when the operation ends. \<open>pause\<close> emits exactly one such event on a RUNNING timer
  and none otherwise; \<open>updateSettings\<close> emits exactly one on an IDLE timer and none
  otherwise.
\<close>

theorem one_snapshot_per_operation:
  "emitted (start w) = emitted w @ [eventData (start w)]
   \<and> emitted (reset w) = emitted w @ [eventData (reset w)]
   \<and> emitted (skip w) = emitted w @ [eventData (skip w)]
   \<and> emitted (tick w) = emitted w @ [eventData (tick w)]
   \<and> emitted (advanceToNextSession w) = emitted w @ [eventData (advanceToNextSession w)]
   \<and> emitted (pause w) =
       (if state w = RUNNING then emitted w @ [eventData (pause w)] else emitted w)
   \<and> emitted (updateSettings p w) =
       (if state w = IDLE then emitted w @ [eventData (updateSettings p w)] else emitted w)"
  using start_fields(9) [of w] reset_fields(9) [of w] completeSession_fields(9) [of w]
    tick_fields(9) [of w] advanceToNextSession_fields(9) [of w] pause_fields(9) [of w]
    updateSettings_fields(9) [of p w]
  unfolding skip_def by blast

subsection \<open>Session sequencing\<close>

text \<open>
  C5. When a WORK session completes, the counter is incremented, and the advance that
  follows selects LONG_BREAK if the incremented counter leaves remainder 0 on division by
  \<open>sessionsUntilLongBreak\<close>, and SHORT_BREAK otherwise (also for the divisor 0, where
  \<open>%\<close> gives \<open>NaN\<close>); when a break completes the counter stays and the advance selects
  WORK. With \<open>sessionsUntilLongBreak = 4\<close>, the completed work sessions 1, 2 and 3 are
  followed by SHORT_BREAK and the 4th by LONG_BREAK.
\<close>

theorem next_session_type_rule:
  "(sessionType w = WORK \<longrightarrow>
      sessionsCompleted (completeSession w) = sessionsCompleted w + 1)
   \<and> (sessionType w = WORK \<and> sessionsUntilLongBreak (settings w) \<noteq> 0 \<longrightarrow>
        sessionType (advanceToNextSession (completeSession w)) =
          (if (sessionsCompleted w + 1) mod sessionsUntilLongBreak (settings w) = 0
           then LONG_BREAK else SHORT_BREAK))
   \<and> (sessionType w = WORK \<and> sessionsUntilLongBreak (settings w) = 0 \<longrightarrow>
        sessionType (advanceToNextSession (completeSession w)) = SHORT_BREAK)
   \<and> (sessionType w \<noteq> WORK \<longrightarrow>
        sessionsCompleted (completeSession w) = sessionsCompleted w
        \<and> sessionType (advanceToNextSession (completeSession w)) = WORK)
   \<and> (sessionType w = WORK \<and> sessionsUntilLongBreak (settings w) = 4
        \<and> sessionsCompleted w + 1 \<in> {1, 2, 3} \<longrightarrow>
        sessionType (advanceToNextSession (completeSession w)) = SHORT_BREAK)
   \<and> (sessionType w = WORK \<and> sessionsUntilLongBreak (settings w) = 4
        \<and> sessionsCompleted w + 1 = 4 \<longrightarrow>
        sessionType (advanceToNextSession (completeSession w)) = LONG_BREAK)"
proof -
  have n: "sessionType (advanceToNextSession (completeSession w)) =
      (if sessionType w = WORK
       then (if sessionsUntilLongBreak (settings w) \<noteq> 0
                \<and> (sessionsCompleted w + 1) mod sessionsUntilLongBreak (settings w) = 0
             then LONG_BREAK else SHORT_BREAK)
       else WORK)"
    by (simp add: sessionType_advanceToNextSession completeSession_fields)
  have r: "(1::int) mod 4 \<noteq> 0" "(2::int) mod 4 \<noteq> 0" "(3::int) mod 4 \<noteq> 0" "(4::int) mod 4 = 0"
    by simp_all
  show ?thesis
    unfolding n using r by (auto simp add: completeSession_fields)
qed

text \<open>The hypotheses are met, and the statement applies, at concrete timers.\<close>

theorem next_session_type_rule_witness:
  "sessionType (PomodoroTimer None) = WORK
   \<and> sessionsUntilLongBreak (settings (PomodoroTimer None)) = 4
   \<and> sessionsCompleted (PomodoroTimer None) + 1 \<in> {1, 2, 3}
   \<and> sessionType (advanceToNextSession (completeSession (PomodoroTimer None))) = SHORT_BREAK
   \<and> sessionType (advanceToNextSession (completeSession (PomodoroTimer None))) \<noteq> WORK
   \<and> sessionType (advanceToNextSession (completeSession
        (advanceToNextSession (completeSession (PomodoroTimer None))))) = WORK
   \<and> sessionsCompleted ((PomodoroTimer None)\<lparr>sessionsCompleted := 3\<rparr>) + 1 = 4
   \<and> sessionType (advanceToNextSession (completeSession
        ((PomodoroTimer None)\<lparr>sessionsCompleted := 3\<rparr>))) = LONG_BREAK
   \<and> sessionsCompleted (completeSession ((PomodoroTimer None)\<lparr>sessionsCompleted := 7\<rparr>)) = 8
   \<and> sessionType (advanceToNextSession (completeSession
        ((PomodoroTimer None)\<lparr>sessionsCompleted := 7\<rparr>))) = LONG_BREAK
   \<and> sessionType (advanceToNextSession (completeSession
        ((PomodoroTimer None)\<lparr>sessionsCompleted := 4\<rparr>))) = SHORT_BREAK
   \<and> sessionsUntilLongBreak (settings (PomodoroTimer
        (Some (no_settings\<lparr>sessionsUntilLongBreak_opt := Some 0\<rparr>)))) = 0
   \<and> sessionType (advanceToNextSession (completeSession (PomodoroTimer
        (Some (no_settings\<lparr>sessionsUntilLongBreak_opt := Some 0\<rparr>))))) = SHORT_BREAK"
proof -
  have h1: "sessionType (PomodoroTimer None) = WORK"
    by code_simp
  have h2: "sessionsUntilLongBreak (settings (PomodoroTimer None)) = 4"
    by code_simp
  have h3: "sessionsCompleted (PomodoroTimer None) + 1 \<in> {1, 2, 3}"
    by code_simp
  have h4: "sessionType (advanceToNextSession (completeSession (PomodoroTimer None))) \<noteq> WORK"
    by code_simp
  have h5: "sessionType ((PomodoroTimer None)\<lparr>sessionsCompleted := 3\<rparr>) = WORK
    \<and> sessionsUntilLongBreak (settings ((PomodoroTimer None)\<lparr>sessionsCompleted := 3\<rparr>)) = 4
    \<and> sessionsCompleted ((PomodoroTimer None)\<lparr>sessionsCompleted := 3\<rparr>) + 1 = 4"
    by code_simp
  have h6: "sessionType ((PomodoroTimer None)\<lparr>sessionsCompleted := 7\<rparr>) = WORK
    \<and> sessionsUntilLongBreak (settings ((PomodoroTimer None)\<lparr>sessionsCompleted := 7\<rparr>)) \<noteq> 0
    \<and> (sessionsCompleted ((PomodoroTimer None)\<lparr>sessionsCompleted := 7\<rparr>) + 1)
        mod sessionsUntilLongBreak (settings ((PomodoroTimer None)\<lparr>sessionsCompleted := 7\<rparr>)) = 0
    \<and> sessionsCompleted ((PomodoroTimer None)\<lparr>sessionsCompleted := 7\<rparr>) + 1 = 8"
    by code_simp
  have h7: "sessionType ((PomodoroTimer None)\<lparr>sessionsCompleted := 4\<rparr>) = WORK
    \<and> sessionsUntilLongBreak (settings ((PomodoroTimer None)\<lparr>sessionsCompleted := 4\<rparr>)) \<noteq> 0
    \<and> (sessionsCompleted ((PomodoroTimer None)\<lparr>sessionsCompleted := 4\<rparr>) + 1)
        mod sessionsUntilLongBreak (settings ((PomodoroTimer None)\<lparr>sessionsCompleted := 4\<rparr>)) \<noteq> 0"
    by code_simp
  have h8: "sessionType (PomodoroTimer
        (Some (no_settings\<lparr>sessionsUntilLongBreak_opt := Some 0\<rparr>))) = WORK
    \<and> sessionsUntilLongBreak (settings (PomodoroTimer
        (Some (no_settings\<lparr>sessionsUntilLongBreak_opt := Some 0\<rparr>)))) = 0"
    by code_simp
  have a: "sessionType (advanceToNextSession (completeSession (PomodoroTimer None))) = SHORT_BREAK"
    using h1 h2 h3 next_session_type_rule [of "PomodoroTimer None"] by blast
  have b: "sessionType (advanceToNextSession (completeSession
        (advanceToNextSession (completeSession (PomodoroTimer None))))) = WORK"
    using h4 next_session_type_rule
      [of "advanceToNextSession (completeSession (PomodoroTimer None))"] by blast
  have c: "sessionType (advanceToNextSession (completeSession
        ((PomodoroTimer None)\<lparr>sessionsCompleted := 3\<rparr>))) = LONG_BREAK"
    using h5 next_session_type_rule [of "(PomodoroTimer None)\<lparr>sessionsCompleted := 3\<rparr>"]
    by blast
  have d: "sessionsCompleted (completeSession ((PomodoroTimer None)\<lparr>sessionsCompleted := 7\<rparr>)) = 8
    \<and> sessionType (advanceToNextSession (completeSession
        ((PomodoroTimer None)\<lparr>sessionsCompleted := 7\<rparr>))) = LONG_BREAK"
    using h6 next_session_type_rule [of "(PomodoroTimer None)\<lparr>sessionsCompleted := 7\<rparr>"]
    by simp
  have e: "sessionType (advanceToNextSession (completeSession
        ((PomodoroTimer None)\<lparr>sessionsCompleted := 4\<rparr>))) = SHORT_BREAK"
    using h7 next_session_type_rule [of "(PomodoroTimer None)\<lparr>sessionsCompleted := 4\<rparr>"]
    by simp
  have f: "sessionType (advanceToNextSession (completeSession (PomodoroTimer
        (Some (no_settings\<lparr>sessionsUntilLongBreak_opt := Some 0\<rparr>))))) = SHORT_BREAK"
    using h8 next_session_type_rule
      [of "PomodoroTimer (Some (no_settings\<lparr>sessionsUntilLongBreak_opt := Some 0\<rparr>))"]
    by blast
  show ?thesis
    using h1 h2 h3 h4 h5 h8 a b c d e f by blast
qed

subsection \<open>Automatic advance\<close>

text \<open>
  C6. The automatic advance sets the session type by the sequencing rule: after WORK,
  LONG_BREAK if \<open>sessionsCompleted\<close> leaves remainder 0 on division by a nonzero
  \<open>sessionsUntilLongBreak\<close> and SHORT_BREAK otherwise; after a break, WORK. It sets the
  remaining time to the configured duration of the new type times 60. If the new type is
  a break and \<open>autoStartBreaks\<close> is set, the timer is RUNNING at once, with one more tick
  source armed; otherwise it is IDLE and no tick source is added. A new WORK session is
  IDLE whatever \<open>autoStartBreaks\<close> is.
\<close>

theorem advanceToNextSession_settles:
  "sessionType (advanceToNextSession w) =
     (if sessionType w = WORK
      then (if sessionsUntilLongBreak (settings w) \<noteq> 0
               \<and> sessionsCompleted w mod sessionsUntilLongBreak (settings w) = 0
            then LONG_BREAK else SHORT_BREAK)
      else WORK)
   \<and> timeRemaining (advanceToNextSession w) =
       (case sessionType (advanceToNextSession w) of
          WORK \<Rightarrow> workDuration (settings w)
        | SHORT_BREAK \<Rightarrow> shortBreak (settings w)
        | LONG_BREAK \<Rightarrow> longBreak (settings w)) * 60
   \<and> settings (advanceToNextSession w) = settings w
   \<and> sessionsCompleted (advanceToNextSession w) = sessionsCompleted w
   \<and> (sessionType (advanceToNextSession w) \<noteq> WORK \<and> autoStartBreaks (settings w) \<longrightarrow>
        state (advanceToNextSession w) = RUNNING
        \<and> tick_sources (advanceToNextSession w) = tick_sources w @ [next_handle w])
   \<and> (\<not> (sessionType (advanceToNextSession w) \<noteq> WORK \<and> autoStartBreaks (settings w)) \<longrightarrow>
        state (advanceToNextSession w) = IDLE
        \<and> tick_sources (advanceToNextSession w) = tick_sources w)
   \<and> (sessionType (advanceToNextSession w) = WORK \<longrightarrow> state (advanceToNextSession w) = IDLE)"
proof -
  have s: "sessionType (advanceToNextSession w) = getNextSessionType w"
    by (simp add: advanceToNextSession_fields)
  have r: "(sessionType (advanceToNextSession w) \<noteq> WORK \<and> autoStartBreaks (settings w) \<longrightarrow>
        state (advanceToNextSession w) = RUNNING
        \<and> tick_sources (advanceToNextSession w) = tick_sources w @ [next_handle w])
   \<and> (\<not> (sessionType (advanceToNextSession w) \<noteq> WORK \<and> autoStartBreaks (settings w)) \<longrightarrow>
        state (advanceToNextSession w) = IDLE
        \<and> tick_sources (advanceToNextSession w) = tick_sources w)
   \<and> (sessionType (advanceToNextSession w) = WORK \<longrightarrow> state (advanceToNextSession w) = IDLE)"
    unfolding s by (auto simp add: advanceToNextSession_fields tick_sources_def)
  show ?thesis
    using r sessionType_advanceToNextSession [of w] timeRemaining_advanceToNextSession [of w]
    by (simp add: advanceToNextSession_fields)
qed

text \<open>The hypotheses are met, and the statement applies, at concrete timers.\<close>

theorem advanceToNextSession_settles_witness:
  "sessionType (advanceToNextSession (completeSession (PomodoroTimer
      (Some (no_settings\<lparr>autoStartBreaks_opt := Some True\<rparr>))))) = SHORT_BREAK
   \<and> autoStartBreaks (settings (completeSession (PomodoroTimer
      (Some (no_settings\<lparr>autoStartBreaks_opt := Some True\<rparr>)))))
   \<and> timeRemaining (advanceToNextSession (completeSession (PomodoroTimer
      (Some (no_settings\<lparr>autoStartBreaks_opt := Some True\<rparr>))))) = 300
   \<and> state (advanceToNextSession (completeSession (PomodoroTimer
      (Some (no_settings\<lparr>autoStartBreaks_opt := Some True\<rparr>))))) = RUNNING
   \<and> sessionType (advanceToNextSession (completeSession
        ((PomodoroTimer None)\<lparr>sessionsCompleted := 3\<rparr>))) = LONG_BREAK
   \<and> timeRemaining (advanceToNextSession (completeSession
        ((PomodoroTimer None)\<lparr>sessionsCompleted := 3\<rparr>))) = 900
   \<and> state (advanceToNextSession (completeSession
        ((PomodoroTimer None)\<lparr>sessionsCompleted := 3\<rparr>))) = IDLE
   \<and> sessionType (advanceToNextSession (advanceToNextSession (completeSession (PomodoroTimer
      (Some (no_settings\<lparr>autoStartBreaks_opt := Some True\<rparr>)))))) = WORK
   \<and> timeRemaining (advanceToNextSession (advanceToNextSession (completeSession (PomodoroTimer
      (Some (no_settings\<lparr>autoStartBreaks_opt := Some True\<rparr>)))))) = 1500
   \<and> state (advanceToNextSession (advanceToNextSession (completeSession (PomodoroTimer
      (Some (no_settings\<lparr>autoStartBreaks_opt := Some True\<rparr>)))))) = IDLE"
proof -
  define a where "a = completeSession (PomodoroTimer
      (Some (no_settings\<lparr>autoStartBreaks_opt := Some True\<rparr>)))"
  define b where "b = completeSession ((PomodoroTimer None)\<lparr>sessionsCompleted := 3\<rparr>)"
  have ha: "sessionType a = WORK" "sessionsUntilLongBreak (settings a) = 4"
    "sessionsCompleted a = 1" "autoStartBreaks (settings a)"
    "workDuration (settings a) = 25" "shortBreak (settings a) = 5"
    unfolding a_def by code_simp+
  have hb: "sessionType b = WORK" "sessionsUntilLongBreak (settings b) = 4"
    "sessionsCompleted b = 4" "\<not> autoStartBreaks (settings b)" "longBreak (settings b) = 15"
    unfolding b_def by code_simp+
  have ta: "sessionType (advanceToNextSession a) = SHORT_BREAK"
    using ha advanceToNextSession_settles [of a] by simp
  have a1: "timeRemaining (advanceToNextSession a) = 300
    \<and> state (advanceToNextSession a) = RUNNING
    \<and> settings (advanceToNextSession a) = settings a"
    using ha ta advanceToNextSession_settles [of a] by simp
  have tb: "sessionType (advanceToNextSession b) = LONG_BREAK"
    using hb advanceToNextSession_settles [of b] by simp
  have b1: "timeRemaining (advanceToNextSession b) = 900
    \<and> state (advanceToNextSession b) = IDLE"
    using hb tb advanceToNextSession_settles [of b] by simp
  have tc: "sessionType (advanceToNextSession (advanceToNextSession a)) = WORK"
    using ta advanceToNextSession_settles [of "advanceToNextSession a"] by simp
  have c1: "timeRemaining (advanceToNextSession (advanceToNextSession a)) = 1500
    \<and> state (advanceToNextSession (advanceToNextSession a)) = IDLE"
    using tc a1 ha advanceToNextSession_settles [of "advanceToNextSession a"] by simp
  show ?thesis
    using ha(4) ta a1 tb b1 tc c1 unfolding a_def b_def by blast
qed

subsection \<open>Reset\<close>

text \<open>
  C7. From every state, \<open>reset\<close> leaves the timer IDLE, with the session type unchanged
  and the remaining time equal to the configured duration of that type (\<open>workDuration\<close>,
  \<open>shortBreak\<close> or \<open>longBreak\<close>) times 60; the interval recorded in \<open>intervalId\<close> is no
  longer armed. It emits one snapshot, with state IDLE, that remaining time and progress 0,
  and a second \<open>reset\<close> right after the first emits the same snapshot again.
\<close>

theorem reset_full_duration_idempotent:
  "state (reset w) = IDLE
   \<and> timeRemaining (reset w) =
       (case sessionType w of
          WORK \<Rightarrow> workDuration (settings w)
        | SHORT_BREAK \<Rightarrow> shortBreak (settings w)
        | LONG_BREAK \<Rightarrow> longBreak (settings w)) * 60
   \<and> sessionType (reset w) = sessionType w
   \<and> settings (reset w) = settings w
   \<and> sessionsCompleted (reset w) = sessionsCompleted w
   \<and> tick_sources (reset w) =
       filter (\<lambda>h. Some h \<noteq> intervalId w) (tick_sources w)
   \<and> emitted (reset w) = emitted w @ [eventData (reset w)]
   \<and> emitted (reset (reset w)) = emitted (reset w) @ [eventData (reset w)]
   \<and> eventData (reset (reset w)) = eventData (reset w)
   \<and> eventData (reset w) =
       \<lparr>ev_timeRemaining =
          (case sessionType w of
             WORK \<Rightarrow> workDuration (settings w)
           | SHORT_BREAK \<Rightarrow> shortBreak (settings w)
           | LONG_BREAK \<Rightarrow> longBreak (settings w)) * 60,
        ev_sessionType = sessionType w, ev_state = IDLE,
        ev_sessionsCompleted = sessionsCompleted w, ev_progress = 0\<rparr>"
proof -
  have d: "getCurrentSessionDuration (reset w) = getCurrentSessionDuration w"
    by (rule getCurrentSessionDuration_eqI) (simp_all add: reset_fields)
  have e: "eventData (reset (reset w)) = eventData (reset w)"
    by (rule eventData_eqI) (simp_all add: reset_fields d)
  have t: "tick_sources (reset w) = filter (\<lambda>h. Some h \<noteq> intervalId w) (tick_sources w)"
  proof (cases "intervalId w")
    case None
    then show ?thesis
      by (simp add: tick_sources_def reset_fields clearInterval_def)
  next
    case (Some h)
    have "map fst (filter (\<lambda>e. snd e = Interval_tick) (filter (\<lambda>e. fst e \<noteq> h) xs)) =
        filter (\<lambda>k. k \<noteq> h) (map fst (filter (\<lambda>e. snd e = Interval_tick) xs))" for xs
      by (induction xs) auto
    with Some show ?thesis
      by (simp add: tick_sources_def reset_fields clearInterval_def window_clearInterval_def)
  qed
  have v: "eventData (reset w) =
       \<lparr>ev_timeRemaining = getCurrentSessionDuration w * 60,
        ev_sessionType = sessionType w, ev_state = IDLE,
        ev_sessionsCompleted = sessionsCompleted w, ev_progress = 0\<rparr>"
    by (simp add: eventData_def Let_def d reset_fields)
  show ?thesis
    using e t v reset_fields(9) [of "reset w"]
    by (simp add: reset_fields getCurrentSessionDuration_cases)
qed

text \<open>The hypotheses are met, and the statement applies, at concrete timers.\<close>

theorem reset_full_duration_idempotent_witness:
  "state (advance_second (start (PomodoroTimer None))) = RUNNING
   \<and> timeRemaining (advance_second (start (PomodoroTimer None))) = 1499
   \<and> state (reset (advance_second (start (PomodoroTimer None)))) = IDLE
   \<and> timeRemaining (reset (advance_second (start (PomodoroTimer None)))) = 1500
   \<and> tick_sources (reset (advance_second (start (PomodoroTimer None)))) = []
   \<and> timeRemaining (reset (advanceToNextSession (completeSession (PomodoroTimer None)))) = 300
   \<and> timeRemaining (reset (advanceToNextSession (completeSession
        ((PomodoroTimer None)\<lparr>sessionsCompleted := 3\<rparr>)))) = 900"
proof -
  define a where "a = advance_second (start (PomodoroTimer None))"
  define b where "b = advanceToNextSession (completeSession (PomodoroTimer None))"
  define c where "c = advanceToNextSession (completeSession
        ((PomodoroTimer None)\<lparr>sessionsCompleted := 3\<rparr>))"
  have ha: "state a = RUNNING" "timeRemaining a = 1499" "sessionType a = WORK"
    "workDuration (settings a) = 25" "intervalId a = Some 1" "tick_sources a = [1]"
    unfolding a_def by code_simp+
  have hb: "sessionType b = SHORT_BREAK" "shortBreak (settings b) = 5"
    unfolding b_def by code_simp+
  have hc: "sessionType c = LONG_BREAK" "longBreak (settings c) = 15"
    unfolding c_def by code_simp+
  have ra: "state (reset a) = IDLE \<and> timeRemaining (reset a) = 1500 \<and> tick_sources (reset a) = []"
    using ha reset_full_duration_idempotent [of a] by simp
  have rb: "timeRemaining (reset b) = 300"
    using hb reset_full_duration_idempotent [of b] by simp
  have rc: "timeRemaining (reset c) = 900"
    using hc reset_full_duration_idempotent [of c] by simp
  show ?thesis
    using ha(1,2) ra rb rc unfolding a_def b_def c_def by blast
qed

subsection \<open>Settings update and the countdown\<close>

text \<open>
  C8, as stated, fails in its last part: a duration changed on a RUNNING timer does not
  wait for the next session of that type. After \<open>start\<close> with the default 25 minutes and
  \<open>updateSettings\<close> with \<open>workDuration: 10\<close>, the state, the session type and the 1500
  seconds are unchanged, but \<open>reset\<close> in the same session leaves 600 seconds, and the
  snapshot of the next tick has progress (600 - 1499) / 600 * 100.
\<close>

theorem updateSettings_running_duration_at_once_counterexample:
  "state (updateSettings (no_settings\<lparr>workDuration_opt := Some 10\<rparr>)
      (start (PomodoroTimer None))) = RUNNING
   \<and> sessionType (updateSettings (no_settings\<lparr>workDuration_opt := Some 10\<rparr>)
      (start (PomodoroTimer None))) = WORK
   \<and> timeRemaining (updateSettings (no_settings\<lparr>workDuration_opt := Some 10\<rparr>)
      (start (PomodoroTimer None))) = 1500
   \<and> timeRemaining (reset (updateSettings (no_settings\<lparr>workDuration_opt := Some 10\<rparr>)
      (start (PomodoroTimer None)))) = 600
   \<and> sessionType (reset (updateSettings (no_settings\<lparr>workDuration_opt := Some 10\<rparr>)
      (start (PomodoroTimer None)))) = WORK
   \<and> ev_progress (last (emitted (advance_second
      (updateSettings (no_settings\<lparr>workDuration_opt := Some 10\<rparr>)
        (start (PomodoroTimer None)))))) = - 899 / 6"
  by code_simp

text \<open>
  C8, amended. \<open>updateSettings\<close> stores each supplied duration as given and never changes
  the state, the session type or the session counter. On an IDLE timer the remaining time
  becomes the new duration of the current session type times 60. On a RUNNING or PAUSED
  timer the remaining time is unchanged. The stored durations are read from then on
  wherever the code reads the duration of a session type: by the next advance, and in the
  current session already by \<open>reset\<close> and by the total that the progress of later
  snapshots is computed from.
\<close>

theorem updateSettings_rederives_when_idle:
  "workDuration (settings (updateSettings p w)) =
     (case workDuration_opt p of None \<Rightarrow> workDuration (settings w) | Some v \<Rightarrow> v)
   \<and> shortBreak (settings (updateSettings p w)) =
     (case shortBreak_opt p of None \<Rightarrow> shortBreak (settings w) | Some v \<Rightarrow> v)
   \<and> longBreak (settings (updateSettings p w)) =
     (case longBreak_opt p of None \<Rightarrow> longBreak (settings w) | Some v \<Rightarrow> v)
   \<and> state (updateSettings p w) = state w
   \<and> sessionType (updateSettings p w) = sessionType w
   \<and> sessionsCompleted (updateSettings p w) = sessionsCompleted w
   \<and> (state w = IDLE \<longrightarrow>
        timeRemaining (updateSettings p w) =
          (case sessionType w of
             WORK \<Rightarrow> workDuration (settings (updateSettings p w))
           | SHORT_BREAK \<Rightarrow> shortBreak (settings (updateSettings p w))
           | LONG_BREAK \<Rightarrow> longBreak (settings (updateSettings p w))) * 60)
   \<and> (state w = RUNNING \<or> state w = PAUSED \<longrightarrow>
        timeRemaining (updateSettings p w) = timeRemaining w)
   \<and> timeRemaining (advanceToNextSession (updateSettings p w)) =
       (case sessionType (advanceToNextSession (updateSettings p w)) of
          WORK \<Rightarrow> workDuration (settings (updateSettings p w))
        | SHORT_BREAK \<Rightarrow> shortBreak (settings (updateSettings p w))
        | LONG_BREAK \<Rightarrow> longBreak (settings (updateSettings p w))) * 60
   \<and> timeRemaining (reset (updateSettings p w)) =
       (case sessionType w of
          WORK \<Rightarrow> workDuration (settings (updateSettings p w))
        | SHORT_BREAK \<Rightarrow> shortBreak (settings (updateSettings p w))
        | LONG_BREAK \<Rightarrow> longBreak (settings (updateSettings p w))) * 60
   \<and> getCurrentSessionDuration (updateSettings p w) =
       (case sessionType w of
          WORK \<Rightarrow> workDuration (settings (updateSettings p w))
        | SHORT_BREAK \<Rightarrow> shortBreak (settings (updateSettings p w))
        | LONG_BREAK \<Rightarrow> longBreak (settings (updateSettings p w)))"
proof -
  have u: "settings (updateSettings p w) = spread_settings (settings w) p"
    by (simp add: updateSettings_fields)
  have g: "getCurrentSessionDuration (updateSettings p w) =
       (case sessionType w of
          WORK \<Rightarrow> workDuration (settings (updateSettings p w))
        | SHORT_BREAK \<Rightarrow> shortBreak (settings (updateSettings p w))
        | LONG_BREAK \<Rightarrow> longBreak (settings (updateSettings p w)))"
    by (simp add: getCurrentSessionDuration_cases updateSettings_fields)
  have g': "getCurrentSessionDuration (w\<lparr>settings := spread_settings (settings w) p\<rparr>) =
      getCurrentSessionDuration (updateSettings p w)"
    by (rule getCurrentSessionDuration_eqI) (simp_all add: updateSettings_fields)
  have i: "state w = IDLE \<longrightarrow>
      timeRemaining (updateSettings p w) = getCurrentSessionDuration (updateSettings p w) * 60"
    by (simp add: updateSettings_fields(2) g')
  have r: "timeRemaining (reset (updateSettings p w)) =
      getCurrentSessionDuration (updateSettings p w) * 60"
    by (simp add: reset_fields)
  have a: "timeRemaining (advanceToNextSession (updateSettings p w)) =
       (case sessionType (advanceToNextSession (updateSettings p w)) of
          WORK \<Rightarrow> workDuration (settings (updateSettings p w))
        | SHORT_BREAK \<Rightarrow> shortBreak (settings (updateSettings p w))
        | LONG_BREAK \<Rightarrow> longBreak (settings (updateSettings p w))) * 60"
    by (rule timeRemaining_advanceToNextSession)
  have f: "workDuration (settings (updateSettings p w)) =
     (case workDuration_opt p of None \<Rightarrow> workDuration (settings w) | Some v \<Rightarrow> v)"
    "shortBreak (settings (updateSettings p w)) =
     (case shortBreak_opt p of None \<Rightarrow> shortBreak (settings w) | Some v \<Rightarrow> v)"
    "longBreak (settings (updateSettings p w)) =
     (case longBreak_opt p of None \<Rightarrow> longBreak (settings w) | Some v \<Rightarrow> v)"
    unfolding u by (simp_all add: spread_settings_fields)
  have k: "state (updateSettings p w) = state w" "sessionType (updateSettings p w) = sessionType w"
    "sessionsCompleted (updateSettings p w) = sessionsCompleted w"
    "state w = RUNNING \<or> state w = PAUSED \<longrightarrow> timeRemaining (updateSettings p w) = timeRemaining w"
    by (auto simp add: updateSettings_fields)
  from i r have i': "state w = IDLE \<longrightarrow>
        timeRemaining (updateSettings p w) =
          (case sessionType w of
             WORK \<Rightarrow> workDuration (settings (updateSettings p w))
           | SHORT_BREAK \<Rightarrow> shortBreak (settings (updateSettings p w))
           | LONG_BREAK \<Rightarrow> longBreak (settings (updateSettings p w))) * 60"
    and r': "timeRemaining (reset (updateSettings p w)) =
       (case sessionType w of
          WORK \<Rightarrow> workDuration (settings (updateSettings p w))
        | SHORT_BREAK \<Rightarrow> shortBreak (settings (updateSettings p w))
        | LONG_BREAK \<Rightarrow> longBreak (settings (updateSettings p w))) * 60"
    unfolding g by blast+
  show ?thesis
    using f k i' a r' g by blast
qed

text \<open>The hypotheses are met, and the statement applies, at concrete timers.\<close>

theorem updateSettings_rederives_when_idle_witness:
  "state (PomodoroTimer None) = IDLE
   \<and> timeRemaining (updateSettings (no_settings\<lparr>workDuration_opt := Some 10\<rparr>)
        (PomodoroTimer None)) = 600
   \<and> (state (start (PomodoroTimer None)) = RUNNING \<or> state (start (PomodoroTimer None)) = PAUSED)
   \<and> timeRemaining (updateSettings (no_settings\<lparr>workDuration_opt := Some 10\<rparr>)
        (start (PomodoroTimer None))) = 1500
   \<and> timeRemaining (reset (updateSettings (no_settings\<lparr>workDuration_opt := Some 10\<rparr>)
        (start (PomodoroTimer None)))) = 600
   \<and> state (advanceToNextSession (completeSession (PomodoroTimer None))) = IDLE
   \<and> timeRemaining (updateSettings (no_settings\<lparr>shortBreak_opt := Some 7\<rparr>)
        (advanceToNextSession (completeSession (PomodoroTimer None)))) = 420
   \<and> timeRemaining (updateSettings (no_settings\<lparr>longBreak_opt := Some 20\<rparr>)
        (advanceToNextSession (completeSession
          ((PomodoroTimer None)\<lparr>sessionsCompleted := 3\<rparr>)))) = 1200"
proof -
  define a where "a = PomodoroTimer None"
  define b where "b = start (PomodoroTimer None)"
  define c where "c = advanceToNextSession (completeSession (PomodoroTimer None))"
  define d where "d = advanceToNextSession (completeSession
          ((PomodoroTimer None)\<lparr>sessionsCompleted := 3\<rparr>))"
  define pw where "pw = no_settings\<lparr>workDuration_opt := Some 10\<rparr>"
  define ps where "ps = no_settings\<lparr>shortBreak_opt := Some 7\<rparr>"
  define pl where "pl = no_settings\<lparr>longBreak_opt := Some 20\<rparr>"
  have hp: "workDuration_opt pw = Some 10" "shortBreak_opt ps = Some 7" "longBreak_opt pl = Some 20"
    by (simp_all add: pw_def ps_def pl_def no_settings_def)
  have ha: "state a = IDLE" "sessionType a = WORK"
    unfolding a_def by code_simp+
  have hb: "state b = RUNNING" "sessionType b = WORK" "timeRemaining b = 1500"
    unfolding b_def by code_simp+
  have hc: "state c = IDLE" "sessionType c = SHORT_BREAK"
    unfolding c_def by code_simp+
  have hd: "state d = IDLE" "sessionType d = LONG_BREAK"
    unfolding d_def by code_simp+
  have 1: "timeRemaining (updateSettings pw a) = 600"
    using ha hp updateSettings_rederives_when_idle [of pw a] by simp
  have 2: "timeRemaining (updateSettings pw b) = 1500
    \<and> timeRemaining (reset (updateSettings pw b)) = 600"
    using hb hp updateSettings_rederives_when_idle [of pw b] by simp
  have 3: "timeRemaining (updateSettings ps c) = 420"
    using hc hp updateSettings_rederives_when_idle [of ps c] by simp
  have 4: "timeRemaining (updateSettings pl d) = 1200"
    using hd hp updateSettings_rederives_when_idle [of pl d] by simp
  show ?thesis
    using ha(1) hb(1) hc(1) 1 2 3 4
    unfolding a_def b_def c_def d_def pw_def ps_def pl_def by blast
qed

subsection \<open>Progress\<close>

text \<open>
  C9, as stated, fails: no clamp is applied. After \<open>start\<close> with the default 25 minutes,
  \<open>updateSettings\<close> with \<open>workDuration: 10\<close> and \<open>pause\<close>, the emitted progress is
  (600 - 1500) / 600 * 100 = -150.
\<close>

theorem progress_out_of_range_counterexample:
  "ev_progress (last (emitted (pause (updateSettings (no_settings\<lparr>workDuration_opt := Some 10\<rparr>)
      (start (PomodoroTimer None)))))) = - 150
   \<and> \<not> 0 \<le> ev_progress (last (emitted (pause (updateSettings
      (no_settings\<lparr>workDuration_opt := Some 10\<rparr>) (start (PomodoroTimer None))))))"
  by code_simp

lemma ev_progress_eventData:
  "ev_progress (eventData w) =
     (if 0 < getCurrentSessionDuration w * 60
      then of_int (getCurrentSessionDuration w * 60 - timeRemaining w)
           / of_int (getCurrentSessionDuration w * 60) * 100
      else 0)"
  by (simp add: eventData_def Let_def)

lemma ev_progress_range:
  assumes "0 \<le> timeRemaining w" "timeRemaining w \<le> getCurrentSessionDuration w * 60"
  shows "0 \<le> ev_progress (eventData w) \<and> ev_progress (eventData w) \<le> 100"
proof (cases "0 < getCurrentSessionDuration w * 60")
  case False
  then show ?thesis by (simp add: ev_progress_eventData)
next
  case True
  define T where "T = getCurrentSessionDuration w * 60"
  define r where "r = timeRemaining w"
  have T: "0 < T" and r: "0 \<le> r" "r \<le> T"
    using True assms by (simp_all add: T_def r_def)
  define q :: rat where "q = of_int (T - r) / of_int T"
  have p: "ev_progress (eventData w) = q * 100"
    using True by (simp add: ev_progress_eventData T_def r_def q_def)
  have "0 \<le> q"
    unfolding q_def using T r by simp
  moreover have "q \<le> 1"
    unfolding q_def using T r by (simp add: divide_le_eq_1)
  ultimately show ?thesis
    unfolding p by simp
qed

text \<open>
  C9, amended. With \<open>total\<close> the duration of the current session type under the current
  settings, times 60, the progress of a snapshot is (total - remaining) / total * 100 when
  \<open>total > 0\<close> and 0 otherwise, so nothing is divided by zero. It lies in [0, 100]
  whenever \<open>0 \<le> remaining \<le> total\<close>. The snapshot that \<open>start\<close> emits on an IDLE
  timer has progress 0, and the snapshot of the tick that takes the remaining time from 1
  to 0 has progress exactly 100 when the duration is positive.
\<close>

theorem progress_formula_guarded:
  "ev_progress (eventData w) =
     (if 0 < getCurrentSessionDuration w * 60
      then of_int (getCurrentSessionDuration w * 60 - timeRemaining w)
           / of_int (getCurrentSessionDuration w * 60) * 100
      else 0)
   \<and> (0 \<le> timeRemaining w \<and> timeRemaining w \<le> getCurrentSessionDuration w * 60 \<longrightarrow>
        0 \<le> ev_progress (eventData w) \<and> ev_progress (eventData w) \<le> 100)
   \<and> (state w = IDLE \<longrightarrow>
        last (emitted (start w)) = eventData (start w) \<and> ev_progress (eventData (start w)) = 0)
   \<and> (timeRemaining w = 1 \<and> 0 < getCurrentSessionDuration w \<longrightarrow>
        timeRemaining (tick w) = 0 \<and> last (emitted (tick w)) = eventData (tick w)
        \<and> ev_progress (eventData (tick w)) = 100)"
proof -
  have ds: "getCurrentSessionDuration (start w) = getCurrentSessionDuration w"
    by (rule getCurrentSessionDuration_eqI) (simp_all add: start_fields)
  have dt: "getCurrentSessionDuration (tick w) = getCurrentSessionDuration w"
    by (rule getCurrentSessionDuration_eqI) (simp_all add: tick_fields)
  have s: "ev_progress (eventData (start w)) = 0" if "state w = IDLE"
    using that by (simp add: ev_progress_eventData ds start_fields)
  have t: "ev_progress (eventData (tick w)) = 100"
    if "timeRemaining w = 1" "0 < getCurrentSessionDuration w"
    using that by (simp add: ev_progress_eventData dt tick_fields)
  show ?thesis
    using s t ev_progress_range [of w] ev_progress_eventData [of w]
    by (simp add: start_fields tick_fields)
qed

text \<open>The hypotheses are met, and the statement applies, at concrete timers.\<close>

theorem progress_formula_guarded_witness:
  "0 \<le> timeRemaining (PomodoroTimer None)
   \<and> timeRemaining (PomodoroTimer None) \<le> getCurrentSessionDuration (PomodoroTimer None) * 60
   \<and> state (PomodoroTimer None) = IDLE
   \<and> ev_progress (eventData (PomodoroTimer None)) \<le> 100
   \<and> ev_progress (eventData (start (PomodoroTimer None))) = 0
   \<and> timeRemaining ((start (PomodoroTimer None))\<lparr>timeRemaining := 1\<rparr>) = 1
   \<and> 0 < getCurrentSessionDuration ((start (PomodoroTimer None))\<lparr>timeRemaining := 1\<rparr>)
   \<and> ev_progress (eventData (tick ((start (PomodoroTimer None))\<lparr>timeRemaining := 1\<rparr>))) = 100"
proof -
  have h1: "0 \<le> timeRemaining (PomodoroTimer None)
     \<and> timeRemaining (PomodoroTimer None) \<le> getCurrentSessionDuration (PomodoroTimer None) * 60"
    by code_simp
  have h2: "state (PomodoroTimer None) = IDLE"
    by code_simp
  have h3: "timeRemaining ((start (PomodoroTimer None))\<lparr>timeRemaining := 1\<rparr>) = 1
     \<and> 0 < getCurrentSessionDuration ((start (PomodoroTimer None))\<lparr>timeRemaining := 1\<rparr>)"
    by code_simp
  show ?thesis
    using h1 h2 h3 progress_formula_guarded [of "PomodoroTimer None"]
      progress_formula_guarded [of "(start (PomodoroTimer None))\<lparr>timeRemaining := 1\<rparr>"]
    by blast
qed

subsection \<open>Skip\<close>

text \<open>
  C10. On a timer whose session type is WORK, \<open>skip\<close> sets the state to COMPLETED,
  increments \<open>sessionsCompleted\<close>, leaves the remaining time as it is and arms one
  deferred advance. It does so in every state, COMPLETED included: after two \<open>skip\<close>s in
  a row the counter has grown by two and two deferred advances are armed.
\<close>

theorem skip_work_counts_every_call:
  "sessionType w = WORK \<longrightarrow>
     state (skip w) = COMPLETED
     \<and> sessionsCompleted (skip w) = sessionsCompleted w + 1
     \<and> timeRemaining (skip w) = timeRemaining w
     \<and> sessionType (skip w) = WORK
     \<and> scheduled (skip w) = scheduled (clearInterval w) @ [(next_handle w, Timeout_advance)]
     \<and> state (skip (skip w)) = COMPLETED
     \<and> sessionsCompleted (skip (skip w)) = sessionsCompleted w + 2
     \<and> timeRemaining (skip (skip w)) = timeRemaining w
     \<and> scheduled (skip (skip w)) =
         scheduled (clearInterval w)
         @ [(next_handle w, Timeout_advance), (Suc (next_handle w), Timeout_advance)]"
proof -
  have c: "clearInterval (completeSession w) = completeSession w"
    by (simp add: clearInterval_def completeSession_fields)
  show ?thesis
    unfolding skip_def
    by (simp add: completeSession_fields [of "completeSession w"] c completeSession_fields [of w])
qed

text \<open>The hypotheses are met, and the statement applies, at concrete timers.\<close>

theorem skip_work_counts_every_call_witness:
  "sessionType (PomodoroTimer None) = WORK
   \<and> sessionsCompleted (PomodoroTimer None) = 0
   \<and> sessionsCompleted (skip (skip (PomodoroTimer None))) = 2
   \<and> state (skip (skip (PomodoroTimer None))) = COMPLETED
   \<and> timeRemaining (skip (PomodoroTimer None)) = timeRemaining (PomodoroTimer None)"
proof -
  have h1: "sessionType (PomodoroTimer None) = WORK"
    by code_simp
  have h2: "sessionsCompleted (PomodoroTimer None) = 0"
    by code_simp
  show ?thesis
    using h1 h2 skip_work_counts_every_call [of "PomodoroTimer None"] by simp
qed

end
